theory Spec2Isabelle
  imports Main "HOL-Library.Sublist" "HOL-Library.AList"
begin

section \<open>Activity logs: \<open>get_logs\<close>, \<open>filter_logs\<close>, \<open>activity_logs_to_string\<close>\<close>

text \<open>
  A log item is the dictionary the task-details endpoint returns for one node of the
  activity log: its \<open>Name\<close>, its \<open>Status\<close>, its \<open>LogElements\<close> (each with a
  \<open>Category\<close> and a \<open>MessageText\<close>) and its \<open>Children\<close>.
\<close>

datatype log_element = LogElement (Category: string) (MessageText: string)

datatype log_item =
  LogItem (Name: string) (Status: string) (LogElements: "log_element list")
    (Children: "log_item list")

text \<open>
  \<open>filter_logs\<close> calls three functions that live outside
  \<open>infrastructure/octopus.py\<close>: \<open>string_to_int\<close> (domain.converters),
  \<open>normalize_log_step_name\<close> (domain.sanitizers) and \<open>fuzz.ratio\<close> (the fuzzywuzzy
  library). They are parameters of the model. \<open>string_to_int\<close> returns an integer or
  Python's \<open>None\<close>.
\<close>

record log_deps =
  string_to_int :: "string \<Rightarrow> int option"
  normalize_log_step_name :: "string \<Rightarrow> string"
  ratio :: "string \<Rightarrow> string \<Rightarrow> int"

text \<open>Python truthiness of the values the code tests with \<open>if x\<close> and \<open>not x\<close>.\<close>

definition truthy_int :: "int option \<Rightarrow> bool" where
  "truthy_int r = (case r of None \<Rightarrow> False | Some n \<Rightarrow> n \<noteq> 0)"

definition truthy_list :: "'a list option \<Rightarrow> bool" where
  "truthy_list r = (case r of None \<Rightarrow> False | Some xs \<Rightarrow> xs \<noteq> [])"

text \<open>
  \<open>any(filter(p, xs))\<close> over strings: \<open>filter\<close> keeps the elements that satisfy
  \<open>p\<close>, and \<open>any\<close> then looks at the truthiness of the kept elements themselves,
  so an empty string that satisfies \<open>p\<close> does not count.
\<close>

definition any_filter :: "(string \<Rightarrow> bool) \<Rightarrow> string list \<Rightarrow> bool" where
  "any_filter p xs = list_ex (\<lambda>x. x \<noteq> []) (filter p xs)"

definition step_name_match_ratio :: int where
  "step_name_match_ratio = 80"

definition filter_logs :: "log_deps \<Rightarrow> log_item \<Rightarrow> string list option \<Rightarrow> bool" where
  "filter_logs d log_item steps =
     (if \<not> truthy_list steps \<or> length (the steps) = 0 then True
      else
        let step_ints = filter (\<lambda>step. truthy_int (string_to_int d step)) (the steps);
            found_index = (step_ints \<noteq> [] \<and> length step_ints \<noteq> 0 \<and>
              any_filter (\<lambda>step_int. prefix (''Step '' @ step_int) (Name log_item)) step_ints);
            found_name = any_filter
              (\<lambda>step. ratio d (normalize_log_step_name d step)
                         (normalize_log_step_name d (Name log_item)) \<ge> step_name_match_ratio)
              (the steps)
        in if \<not> found_index \<and> \<not> found_name then False else True)"

fun get_logs ::
  "log_deps \<Rightarrow> log_item \<Rightarrow> nat \<Rightarrow> string list option \<Rightarrow> string list option \<Rightarrow> bool
     \<Rightarrow> string list" where
  "get_logs d (LogItem name st els cs) depth steps categories include_name =
     (if depth = 0 \<and> length els = 0 \<and> length cs = 0
      then (if \<not> truthy_list categories
            then [''No logs found (status: '' @ st @ '').''] else [])
      else
        let filtered_logs =
              (if truthy_list categories
               then filter (\<lambda>x. Category x \<in> set (the categories)) els else els);
            logs = (if include_name then [name] else []) @ map MessageText filtered_logs
        in if depth = 1 \<and> \<not> filter_logs d (LogItem name st els cs) steps then logs
           else if cs \<noteq> []
                then logs @ concat (map (\<lambda>child.
                       get_logs d child (depth + 1) steps categories include_name) cs)
                else logs)"

text \<open>\<open>join_string.join(logs)\<close>.\<close>

fun str_join :: "string \<Rightarrow> string list \<Rightarrow> string" where
  "str_join sep [] = []"
| "str_join sep [x] = x"
| "str_join sep (x # y # ys) = x @ sep @ str_join sep (y # ys)"

text \<open>
  \<open>flatten_list\<close> (domain.sanitizers) is not part of \<open>infrastructure/octopus.py\<close>; it is a
  parameter. \<open>activity_logs\<close> is \<open>None\<close> or a list of root log items.
\<close>

definition activity_logs_to_string ::
  "log_deps \<Rightarrow> (string list list \<Rightarrow> string list) \<Rightarrow> log_item list option
     \<Rightarrow> string list option \<Rightarrow> string list option \<Rightarrow> string \<Rightarrow> bool \<Rightarrow> string" where
  "activity_logs_to_string d flatten_list activity_logs sanitized_steps categories
       join_string include_name =
     (if \<not> truthy_list activity_logs then ''''
      else
        let logs = flatten_list
              (map (\<lambda>i. get_logs d i 0 sanitized_steps categories include_name)
                 (the activity_logs))
        in str_join join_string logs)"

section \<open>Python values, exceptions and strings\<close>

text \<open>
  The bodies the server returns are JSON documents; \<open>resp.json()\<close> turns them into Python
  values. A dictionary is an association list (keys in insertion order); a number is an
  integer, since no function modelled here reads a fractional one. \<open>JNull\<close> is Python's
  \<open>None\<close>. Strings are byte strings: a text is carried as its UTF-8 encoding.
\<close>

datatype json_value =
  JNull
| JBool bool
| JNumber int
| JString string
| JList "json_value list"
| JDict "(string \<times> json_value) list"

datatype exn =
  ValueError string
| TypeError
| KeyError string
| AttributeError
| UnicodeDecodeError
| HTTPError string
| OctopusApiKeyInvalid
| OctopusRequestFailed string
| ResourceNotFound string string
| SpaceNotFound string
| JSONDecodeError

definition bind_e :: "exn + 'a \<Rightarrow> ('a \<Rightarrow> exn + 'b) \<Rightarrow> exn + 'b" where
  "bind_e m f = (case m of Inl e \<Rightarrow> Inl e | Inr a \<Rightarrow> f a)"

text \<open>\<open>v[key]\<close> with a string key.\<close>

fun py_getitem :: "json_value \<Rightarrow> string \<Rightarrow> exn + json_value" where
  "py_getitem (JDict kvs) key =
     (case map_of kvs key of None \<Rightarrow> Inl (KeyError key) | Some v \<Rightarrow> Inr v)"
| "py_getitem _ key = Inl TypeError"

text \<open>Iterating a value: a list gives its elements, a dictionary its keys, a string its
  characters; nothing else is iterable.\<close>

fun py_iter :: "json_value \<Rightarrow> exn + json_value list" where
  "py_iter (JList xs) = Inr xs"
| "py_iter (JDict kvs) = Inr (map (\<lambda>kv. JString (fst kv)) kvs)"
| "py_iter (JString s) = Inr (map (\<lambda>c. JString [c]) s)"
| "py_iter _ = Inl TypeError"

fun py_len :: "json_value \<Rightarrow> exn + nat" where
  "py_len (JList xs) = Inr (length xs)"
| "py_len (JDict kvs) = Inr (length kvs)"
| "py_len (JString s) = Inr (length s)"
| "py_len _ = Inl TypeError"


text \<open>A string method (\<open>.lower()\<close>, \<open>.strip()\<close>) called on a value that is not a string
  raises \<open>AttributeError\<close>.\<close>

fun py_str :: "json_value \<Rightarrow> exn + string" where
  "py_str (JString s) = Inr s"
| "py_str _ = Inl AttributeError"

text \<open>\<open>str.lower\<close> and \<open>str.strip\<close> on ASCII text: the letters A to Z, and the ASCII
  whitespace characters (tab to carriage return, the four separators 28 to 31, space).\<close>

definition lower_char :: "char \<Rightarrow> char" where
  "lower_char c =
     (let n = (of_char c :: nat) in if 65 \<le> n \<and> n \<le> 90 then char_of (n + 32) else c)"

definition py_lower :: "string \<Rightarrow> string" where
  "py_lower s = map lower_char s"

definition is_space :: "char \<Rightarrow> bool" where
  "is_space c =
     (let n = (of_char c :: nat) in (9 \<le> n \<and> n \<le> 13) \<or> (28 \<le> n \<and> n \<le> 32))"

definition py_strip :: "string \<Rightarrow> string" where
  "py_strip s = rev (dropWhile is_space (rev (dropWhile is_space s)))"

text \<open>
  \<open>bytes.decode('utf-8')\<close> raises \<open>UnicodeDecodeError\<close> on a byte string that is not
  well-formed UTF-8 (Unicode Standard, table 3-7); on a well-formed one it returns the
  text, which is carried here as the same bytes.
\<close>

definition cont_byte :: "nat \<Rightarrow> bool" where
  "cont_byte b = (128 \<le> b \<and> b \<le> 191)"

fun utf8_valid :: "nat list \<Rightarrow> bool" where
  "utf8_valid [] = True"
| "utf8_valid (b0 # bs) =
     (if b0 < 128 then utf8_valid bs
      else if 194 \<le> b0 \<and> b0 \<le> 223 then
        (case bs of b1 # r \<Rightarrow> cont_byte b1 \<and> utf8_valid r | _ \<Rightarrow> False)
      else if 224 \<le> b0 \<and> b0 \<le> 239 then
        (case bs of
           b1 # b2 # r \<Rightarrow>
             (if b0 = 224 then 160 \<le> b1 \<and> b1 \<le> 191
              else if b0 = 237 then 128 \<le> b1 \<and> b1 \<le> 159
              else cont_byte b1) \<and> cont_byte b2 \<and> utf8_valid r
         | _ \<Rightarrow> False)
      else if 240 \<le> b0 \<and> b0 \<le> 244 then
        (case bs of
           b1 # b2 # b3 # r \<Rightarrow>
             (if b0 = 240 then 144 \<le> b1 \<and> b1 \<le> 191
              else if b0 = 244 then 128 \<le> b1 \<and> b1 \<le> 143
              else cont_byte b1) \<and> cont_byte b2 \<and> cont_byte b3 \<and> utf8_valid r
         | _ \<Rightarrow> False)
      else False)"

definition decode_utf8 :: "string \<Rightarrow> exn + string" where
  "decode_utf8 bs = (if utf8_valid (map of_char bs) then Inr bs else Inl UnicodeDecodeError)"

section \<open>The transport, the state and the collaborators\<close>

record request =
  http_method :: string
  url :: string
  headers :: "(string \<times> string) list"

text \<open>A response object: \<open>status\<close>, the raw body \<open>data\<close>, and in \<open>json\<close> what
  \<open>json.loads\<close> makes of the decoded body (\<open>None\<close> when the body is not a JSON
  document). \<open>resp.json()\<close> decodes the body, then parses it.\<close>

record response =
  status :: int
  data :: string
  json :: "json_value option"

definition resp_json :: "response \<Rightarrow> exn + json_value" where
  "resp_json resp =
     bind_e (decode_utf8 (data resp)) (\<lambda>_.
       case json resp of None \<Rightarrow> Inl JSONDecodeError | Some v \<Rightarrow> Inr v)"

text \<open>
  What \<open>infrastructure/octopus.py\<close> imports and does not define is a parameter:
  \<open>http.request\<close> (the transport, acting on the state \<open>'w\<close> of the remote world, and
  raising or returning a response), \<open>build_url\<close>, \<open>quote_safe\<close>, the test behind
  \<open>ensure_string_not_empty\<close>, the constant \<open>TAKE_ALL\<close> and \<open>get_item_fuzzy\<close>
  (which returns an item or \<open>None\<close>).
\<close>

record 'w env =
  http_request :: "request \<Rightarrow> 'w \<Rightarrow> (exn + response) \<times> 'w"
  build_url :: "string \<Rightarrow> string \<Rightarrow> (string \<times> json_value) list option \<Rightarrow> string"
  quote_safe :: "string \<Rightarrow> string"
  string_not_empty :: "string \<Rightarrow> bool"
  TAKE_ALL :: int
  get_item_fuzzy :: "json_value \<Rightarrow> string \<Rightarrow> exn + json_value"

text \<open>
  The module-level dictionaries \<open>environment_cache\<close> and \<open>tenant_cache\<close>, nested by
  server URL, space id and name. The state also keeps the list of the requests handed to
  the transport so far.
\<close>

type_synonym cache = "(string \<times> (string \<times> (string \<times> json_value) list) list) list"

record 'w state =
  world :: 'w
  requests :: "request list"
  environment_cache :: cache
  tenant_cache :: cache

type_synonym ('a, 'w) io = "'w state \<Rightarrow> (exn + 'a) \<times> 'w state"

definition bind_io :: "('a, 'w) io \<Rightarrow> ('a \<Rightarrow> ('b, 'w) io) \<Rightarrow> ('b, 'w) io" where
  "bind_io m f s = (case m s of (Inl e, s') \<Rightarrow> (Inl e, s') | (Inr a, s') \<Rightarrow> f a s')"

definition lift_io :: "exn + 'a \<Rightarrow> ('a, 'w) io" where
  "lift_io r s = (r, s)"

text \<open>
  \<open>@retry(HTTPError, tries=3, delay=2)\<close>: the call is attempted again after an
  \<open>HTTPError\<close>, three attempts at most; the last attempt's exception, and any other
  exception, goes to the caller. The argument counts the attempts left (the decorator
  is used with 3 only). The delay and the printing of \<open>logging_wrapper\<close> are not modelled.
\<close>

fun retry :: "nat \<Rightarrow> ('a, 'w) io \<Rightarrow> ('a, 'w) io" where
  "retry (Suc (Suc n)) f s =
     (case f s of
        (Inl (HTTPError m), s') \<Rightarrow> retry (Suc n) f s'
      | r \<Rightarrow> r)"
| "retry _ f s = f s"

definition get_octopus_headers :: "string option \<Rightarrow> exn + (string \<times> string) list" where
  "get_octopus_headers my_api_key =
     (case my_api_key of
        None \<Rightarrow> Inl (ValueError ''my_api_key must be the Octopus API key.'')
      | Some k \<Rightarrow> Inr [(''X-Octopus-ApiKey'', k), (''User-Agent'', ''OctopusAI'')])"

definition ensure_string_not_empty :: "'w env \<Rightarrow> string option \<Rightarrow> string \<Rightarrow> exn + unit" where
  "ensure_string_not_empty env v msg =
     (case v of
        None \<Rightarrow> Inl (ValueError msg)
      | Some x \<Rightarrow> if string_not_empty env x then Inr () else Inl (ValueError msg))"

text \<open>The callback \<open>lambda: http.request("GET", api, headers=get_octopus_headers(api_key))\<close>.\<close>

definition http_get :: "'w env \<Rightarrow> string \<Rightarrow> string option \<Rightarrow> (response, 'w) io" where
  "http_get env api api_key s =
     (case get_octopus_headers api_key of
        Inl e \<Rightarrow> (Inl e, s)
      | Inr h \<Rightarrow>
          let req = \<lparr>http_method = ''GET'', url = api, headers = h\<rparr>;
              (r, w') = http_request env req (world s)
          in (r, s\<lparr>world := w', requests := requests s @ [req]\<rparr>))"

text \<open>\<open>logger.info(response.data.decode('utf-8'))\<close> runs before each \<open>raise\<close>, so a body
  that does not decode raises first.\<close>

definition handle_response :: "(response, 'w) io \<Rightarrow> (response, 'w) io" where
  "handle_response callback =
     bind_io callback (\<lambda>resp.
       if status resp = 401 then
         lift_io (bind_e (decode_utf8 (data resp)) (\<lambda>_. Inl OctopusApiKeyInvalid))
       else if status resp \<noteq> 200 \<and> status resp \<noteq> 201 then
         lift_io (bind_e (decode_utf8 (data resp)) (\<lambda>body.
           Inl (OctopusRequestFailed (''Request failed with '' @ body))))
       else lift_io (Inr resp))"

section \<open>Spaces and projects\<close>

definition get_space :: "'w env \<Rightarrow> string \<Rightarrow> string option \<Rightarrow> string \<Rightarrow> (json_value, 'w) io" where
  "get_space env space_id api_key octopus_url =
     retry 3
       (bind_io (lift_io (ensure_string_not_empty env (Some space_id)
            ''space_id must be a non-empty string (get_space).'')) (\<lambda>_.
        bind_io (lift_io (ensure_string_not_empty env (Some octopus_url)
            ''octopus_url must be the Octopus Url (get_space).'')) (\<lambda>_.
        bind_io (lift_io (ensure_string_not_empty env api_key
            ''api_key must be the Octopus Api key (get_space).'')) (\<lambda>_.
        let base_url = ''api/Spaces/'' @ quote_safe env space_id;
            api = build_url env octopus_url base_url None
        in bind_io (handle_response (http_get env api api_key)) (\<lambda>resp.
           lift_io (resp_json resp))))))"

text \<open>\<open>list(filter(lambda s: s["Name"] == space_name, items))\<close> and its
  case-insensitive, stripped variant; evaluating the lambda can raise.\<close>

fun filter_e :: "('a \<Rightarrow> exn + bool) \<Rightarrow> 'a list \<Rightarrow> exn + 'a list" where
  "filter_e p [] = Inr []"
| "filter_e p (x # xs) =
     (case p x of
        Inl e \<Rightarrow> Inl e
      | Inr b \<Rightarrow>
          (case filter_e p xs of
             Inl e \<Rightarrow> Inl e
           | Inr ys \<Rightarrow> Inr (if b then x # ys else ys)))"

definition name_equals :: "string \<Rightarrow> json_value \<Rightarrow> exn + bool" where
  "name_equals name s = bind_e (py_getitem s ''Name'') (\<lambda>v. Inr (v = JString name))"

definition name_equals_ci :: "string \<Rightarrow> json_value \<Rightarrow> exn + bool" where
  "name_equals_ci name s =
     bind_e (py_getitem s ''Name'') (\<lambda>v.
     bind_e (py_str v) (\<lambda>n. Inr (py_strip (py_lower n) = py_strip (py_lower name))))"

definition id_and_name :: "json_value \<Rightarrow> exn + json_value \<times> json_value" where
  "id_and_name space =
     bind_e (py_getitem space ''Id'') (\<lambda>i.
     bind_e (py_getitem space ''Name'') (\<lambda>n. Inr (i, n)))"

definition get_space_id_and_name_from_name ::
  "'w env \<Rightarrow> string \<Rightarrow> string option \<Rightarrow> string \<Rightarrow> (json_value \<times> json_value, 'w) io" where
  "get_space_id_and_name_from_name env space_name my_api_key my_octopus_api =
     bind_io (lift_io (ensure_string_not_empty env (Some space_name)
         ''space_name must be a non-empty string (get_space_id_and_name_from_name).'')) (\<lambda>_.
     bind_io (lift_io (ensure_string_not_empty env (Some my_octopus_api)
         ''my_octopus_api must be the Octopus Url (get_space_id_and_name_from_name).'')) (\<lambda>_.
     bind_io (lift_io (ensure_string_not_empty env my_api_key
         ''my_api_key must be the Octopus Api key (get_space_id_and_name_from_name).'')) (\<lambda>_.
     if prefix ''Spaces-'' space_name then
       bind_io (get_space env space_name my_api_key my_octopus_api) (\<lambda>space.
         lift_io (id_and_name space))
     else
       let api = build_url env my_octopus_api ''api/spaces''
                   (Some [(''take'', JNumber (TAKE_ALL env))])
       in bind_io (handle_response (http_get env api my_api_key)) (\<lambda>resp.
          lift_io (
            bind_e (resp_json resp) (\<lambda>json_body.
            bind_e (py_getitem json_body ''Items'') (\<lambda>items.
            bind_e (py_iter items) (\<lambda>spaces.
            bind_e (filter_e (name_equals space_name) spaces) (\<lambda>filtered_spaces.
            if length filtered_spaces = 1 then id_and_name (filtered_spaces ! 0)
            else
              bind_e (filter_e (name_equals_ci space_name) spaces) (\<lambda>filtered_spaces.
              if length filtered_spaces = 1 then id_and_name (filtered_spaces ! 0)
              else Inl (SpaceNotFound space_name)))))))))))"

definition get_spaces_batch ::
  "'w env \<Rightarrow> nat \<Rightarrow> nat \<Rightarrow> string option \<Rightarrow> string \<Rightarrow> (json_value, 'w) io" where
  "get_spaces_batch env skip take' api_key octopus_url =
     retry 3
       (let api = build_url env octopus_url ''api/Spaces''
                    (Some [(''take'', JNumber (int take')), (''skip'', JNumber (int skip))])
        in bind_io (handle_response (http_get env api api_key)) (\<lambda>resp.
           lift_io (bind_e (resp_json resp) (\<lambda>json_body. py_getitem json_body ''Items''))))"

definition get_projects_batch ::
  "'w env \<Rightarrow> nat \<Rightarrow> nat \<Rightarrow> string \<Rightarrow> string option \<Rightarrow> string \<Rightarrow> (json_value, 'w) io" where
  "get_projects_batch env skip take' space_id api_key octopus_url =
     retry 3
       (let api = build_url env octopus_url (''api/'' @ quote_safe env space_id @ ''/Projects'')
                    (Some [(''take'', JNumber (int take')), (''skip'', JNumber (int skip))])
        in bind_io (handle_response (http_get env api api_key)) (\<lambda>resp.
           lift_io (bind_e (resp_json resp) (\<lambda>json_body. py_getitem json_body ''Items''))))"

text \<open>
  A run of a generator to its end: the items it yielded, the \<open>(skip, take)\<close> pairs it
  asked the batch function for, the exception that ended it (if one did) and the state it
  left. The loop \<open>while True\<close> need not end, so the run is an option: \<open>None\<close> is the
  generator that never stops.
\<close>

record 's run =
  yielded :: "json_value list"
  page_requests :: "(nat \<times> nat) list"
  raised :: "exn option"
  final :: 's

partial_function (option) generator_loop ::
  "(nat \<Rightarrow> nat \<Rightarrow> 's \<Rightarrow> (exn + json_value) \<times> 's) \<Rightarrow> nat \<Rightarrow> nat \<Rightarrow> 's \<Rightarrow> 's run option" where
  "generator_loop get_batch skip take' s =
     (case get_batch skip take' s of
        (Inl e, s1) \<Rightarrow>
          Some \<lparr>yielded = [], page_requests = [(skip, take')], raised = Some e, final = s1\<rparr>
      | (Inr batch, s1) \<Rightarrow>
          (case py_iter batch of
             Inl e \<Rightarrow>
               Some \<lparr>yielded = [], page_requests = [(skip, take')], raised = Some e,
                     final = s1\<rparr>
           | Inr items \<Rightarrow>
               (case py_len batch of
                  Inl e \<Rightarrow>
                    Some \<lparr>yielded = items, page_requests = [(skip, take')], raised = Some e,
                          final = s1\<rparr>
                | Inr n \<Rightarrow>
                    if n \<noteq> take'
                    then Some \<lparr>yielded = items, page_requests = [(skip, take')],
                               raised = None, final = s1\<rparr>
                    else Option.bind (generator_loop get_batch (skip + take') take' s1)
                           (\<lambda>r. Some (r\<lparr>yielded := items @ yielded r,
                                  page_requests := (skip, take') # page_requests r\<rparr>)))))"

text \<open>The body shared by \<open>get_spaces_generator\<close> and \<open>get_projects_generator\<close>:
  \<open>skip = 0\<close>, \<open>take = 30\<close>, then the loop.\<close>

definition batch_generator ::
  "(nat \<Rightarrow> nat \<Rightarrow> 's \<Rightarrow> (exn + json_value) \<times> 's) \<Rightarrow> 's \<Rightarrow> 's run option" where
  "batch_generator get_batch s = generator_loop get_batch 0 30 s"

definition get_spaces_generator ::
  "'w env \<Rightarrow> string option \<Rightarrow> string \<Rightarrow> 'w state \<Rightarrow> 'w state run option" where
  "get_spaces_generator env api_key octopus_url =
     batch_generator (\<lambda>skip take'. get_spaces_batch env skip take' api_key octopus_url)"

definition get_projects_generator ::
  "'w env \<Rightarrow> string \<Rightarrow> string option \<Rightarrow> string \<Rightarrow> 'w state \<Rightarrow> 'w state run option" where
  "get_projects_generator env space_id api_key octopus_url =
     batch_generator
       (\<lambda>skip take'. get_projects_batch env skip take' space_id api_key octopus_url)"

text \<open>One tier of a lookup by name: the listing request, then
  \<open>get_item_fuzzy(resp.json()["Items"], name)\<close>.\<close>

definition lookup_fuzzy :: "'w env \<Rightarrow> string \<Rightarrow> string option \<Rightarrow> string \<Rightarrow> (json_value, 'w) io" where
  "lookup_fuzzy env api api_key name =
     bind_io (handle_response (http_get env api api_key)) (\<lambda>resp.
       lift_io (
         bind_e (resp_json resp) (\<lambda>json_body.
         bind_e (py_getitem json_body ''Items'') (\<lambda>items.
         get_item_fuzzy env items name))))"


section \<open>Lookups by name, and their caches\<close>

text \<open>\<open>get_environment_fuzzy\<close>, \<open>get_tenant_fuzzy\<close> and \<open>get_project_fuzzy\<close> differ in the
  collection they list and in the kind they report; the fallback lists the collection
  with no query.\<close>

definition get_environment_fuzzy ::
  "'w env \<Rightarrow> string \<Rightarrow> string \<Rightarrow> string option \<Rightarrow> string \<Rightarrow> (json_value, 'w) io" where
  "get_environment_fuzzy env space_id environment_name api_key octopus_url =
     retry 3
       (let base_url = ''api/'' @ quote_safe env space_id @ ''/Environments'';
            api = build_url env octopus_url base_url
                    (Some [(''partialname'', JString environment_name)])
        in bind_io (lookup_fuzzy env api api_key environment_name) (\<lambda>environment.
           if environment = JNull then
             let api = build_url env octopus_url base_url None
             in bind_io (lookup_fuzzy env api api_key environment_name) (\<lambda>environment.
                if environment = JNull
                then lift_io (Inl (ResourceNotFound ''Environment'' environment_name))
                else lift_io (Inr environment))
           else lift_io (Inr environment)))"

definition get_tenant_fuzzy ::
  "'w env \<Rightarrow> string \<Rightarrow> string \<Rightarrow> string option \<Rightarrow> string \<Rightarrow> (json_value, 'w) io" where
  "get_tenant_fuzzy env space_id tenant_name api_key octopus_url =
     retry 3
       (let base_url = ''api/'' @ quote_safe env space_id @ ''/Tenants'';
            api = build_url env octopus_url base_url
                    (Some [(''partialname'', JString tenant_name)])
        in bind_io (lookup_fuzzy env api api_key tenant_name) (\<lambda>tenant.
           if tenant = JNull then
             let api = build_url env octopus_url base_url None
             in bind_io (lookup_fuzzy env api api_key tenant_name) (\<lambda>tenant.
                if tenant = JNull
                then lift_io (Inl (ResourceNotFound ''Tenant'' tenant_name))
                else lift_io (Inr tenant))
           else lift_io (Inr tenant)))"

definition get_project_fuzzy ::
  "'w env \<Rightarrow> string \<Rightarrow> string \<Rightarrow> string option \<Rightarrow> string \<Rightarrow> (json_value, 'w) io" where
  "get_project_fuzzy env space_id project_name api_key octopus_url =
     retry 3
       (let base_url = ''api/'' @ quote_safe env space_id @ ''/Projects'';
            api = build_url env octopus_url base_url
                    (Some [(''partialname'', JString project_name)])
        in bind_io (lookup_fuzzy env api api_key project_name) (\<lambda>project.
           if project = JNull then
             let api = build_url env octopus_url base_url None
             in bind_io (lookup_fuzzy env api api_key project_name) (\<lambda>project.
                if project = JNull
                then lift_io (Inl (ResourceNotFound ''Project'' project_name))
                else lift_io (Inr project))
           else lift_io (Inr project)))"

text \<open>
  The first two statements of a cached lookup: \<open>if not cache.get(octopus_url):
  cache[octopus_url] = {}\<close>, then the same for \<open>space_id\<close> one level down.
\<close>

definition cache_prepare :: "cache \<Rightarrow> string \<Rightarrow> string \<Rightarrow> cache" where
  "cache_prepare c octopus_url space_id =
     (let c1 = (if \<not> truthy_list (map_of c octopus_url)
                then AList.update octopus_url [] c else c);
          by_space = (case map_of c1 octopus_url of None \<Rightarrow> [] | Some m \<Rightarrow> m)
      in if \<not> truthy_list (map_of by_space space_id)
         then AList.update octopus_url (AList.update space_id [] by_space) c1
         else c1)"







section \<open>Notions the properties are stated with\<close>

text \<open>The lines one node emits itself: its name when asked for, then the messages of its
  log elements, those of the wanted categories when a category filter is given.\<close>

definition emitted_lines :: "log_item \<Rightarrow> string list option \<Rightarrow> bool \<Rightarrow> string list" where
  "emitted_lines item categories include_name =
     (if include_name then [Name item] else [])
     @ map MessageText
         (if truthy_list categories
          then filter (\<lambda>x. Category x \<in> set (the categories)) (LogElements item)
          else LogElements item)"

text \<open>The lines of a whole subtree, in pre-order.\<close>

fun subtree_lines :: "log_item \<Rightarrow> string list option \<Rightarrow> bool \<Rightarrow> string list" where
  "subtree_lines (LogItem name st els cs) categories include_name =
     emitted_lines (LogItem name st els cs) categories include_name
     @ concat (map (\<lambda>child. subtree_lines child categories include_name) cs)"

text \<open>
  The batches a batch function serves when it is asked for page after page:
  \<open>state_before get_batch take s i\<close> is the state in which page \<open>i\<close> is requested (page
  \<open>i\<close> is the request with \<open>skip = i * take\<close>), \<open>page\<close> is what that request returns.
\<close>

fun state_before :: "(nat \<Rightarrow> nat \<Rightarrow> 's \<Rightarrow> (exn + json_value) \<times> 's) \<Rightarrow> nat \<Rightarrow> 's \<Rightarrow> nat \<Rightarrow> 's" where
  "state_before get_batch take' s 0 = s"
| "state_before get_batch take' s (Suc i) =
     snd (get_batch (i * take') take' (state_before get_batch take' s i))"

definition page :: "(nat \<Rightarrow> nat \<Rightarrow> 's \<Rightarrow> (exn + json_value) \<times> 's) \<Rightarrow> nat \<Rightarrow> 's \<Rightarrow> nat \<Rightarrow> exn + json_value" where
  "page get_batch take' s i = fst (get_batch (i * take') take' (state_before get_batch take' s i))"

text \<open>The items of a page that is a list (no items otherwise).\<close>

definition page_items :: "exn + json_value \<Rightarrow> json_value list" where
  "page_items p = (case p of Inr (JList xs) \<Rightarrow> xs | _ \<Rightarrow> [])"

text \<open>A listing function for tests: it serves the batches of a fixed list one call after
  the other, whatever \<open>skip\<close> and \<open>take\<close> are, and empty batches after them. Its state is
  the number of calls made.\<close>

definition fake_listing :: "json_value list list \<Rightarrow> nat \<Rightarrow> nat \<Rightarrow> nat \<Rightarrow> (exn + json_value) \<times> nat" where
  "fake_listing batches skip take' n =
     (Inr (JList (if n < length batches then batches ! n else [])), Suc n)"

text \<open>
  Modelled from the spec: \<open>get_item_fuzzy\<close> (domain.sanitizers.sanitized_list) is not in
  \<open>infrastructure/octopus.py\<close>. The specification (4.2, step 2) gives the selection: if
  exactly one candidate has a name equal to the queried name, return it; else if exactly
  one candidate has a name equal to it after lowercasing and trimming, return it; else
  nothing is selected. It is written as \<open>get_space_id_and_name_from_name\<close> writes the same
  selection over the spaces.
\<close>

definition get_item_fuzzy_spec :: "json_value \<Rightarrow> string \<Rightarrow> exn + json_value" where
  "get_item_fuzzy_spec items name =
     bind_e (py_iter items) (\<lambda>candidates.
     bind_e (filter_e (name_equals name) candidates) (\<lambda>exact.
     if length exact = 1 then Inr (exact ! 0)
     else
       bind_e (filter_e (name_equals_ci name) candidates) (\<lambda>insensitive.
       if length insensitive = 1 then Inr (insensitive ! 0) else Inr JNull)))"

text \<open>The value a cache holds for a server URL, a space id and a name, if it holds one.\<close>

definition cached_value :: "cache \<Rightarrow> string \<Rightarrow> string \<Rightarrow> string \<Rightarrow> json_value option" where
  "cached_value c octopus_url space_id name =
     (case map_of c octopus_url of
        None \<Rightarrow> None
      | Some by_space \<Rightarrow>
          (case map_of by_space space_id of
             None \<Rightarrow> None
           | Some by_name \<Rightarrow> map_of by_name name))"

text \<open>The request \<open>http_get\<close> hands to the transport for a URL and an API key.\<close>

definition get_request :: "string \<Rightarrow> string \<Rightarrow> request" where
  "get_request api k =
     \<lparr>http_method = ''GET'', url = api,
      headers = [(''X-Octopus-ApiKey'', k), (''User-Agent'', ''OctopusAI'')]\<rparr>"



text \<open>The listing requests of the lookups by name: with the partial name, and the
  fallback with no query.\<close>

definition partial_name_request :: "'w env \<Rightarrow> string \<Rightarrow> string \<Rightarrow> string \<Rightarrow> string \<Rightarrow> string \<Rightarrow> request" where
  "partial_name_request env octopus_url k space_id collection name =
     get_request
       (build_url env octopus_url (''api/'' @ quote_safe env space_id @ ''/'' @ collection)
          (Some [(''partialname'', JString name)])) k"

definition full_list_request :: "'w env \<Rightarrow> string \<Rightarrow> string \<Rightarrow> string \<Rightarrow> string \<Rightarrow> request" where
  "full_list_request env octopus_url k space_id collection =
     get_request
       (build_url env octopus_url (''api/'' @ quote_safe env space_id @ ''/'' @ collection)
          None) k"

definition spaces_list_request :: "'w env \<Rightarrow> string \<Rightarrow> string \<Rightarrow> request" where
  "spaces_list_request env octopus_url k =
     get_request
       (build_url env octopus_url ''api/spaces'' (Some [(''take'', JNumber (TAKE_ALL env))])) k"

text \<open>A listing that answered: status 200 or 201 and a body whose \<open>Items\<close> is a list of
  dictionaries that each have a string \<open>Name\<close>.\<close>

definition named :: "json_value \<Rightarrow> string \<Rightarrow> bool" where
  "named item n = (py_getitem item ''Name'' = Inr (JString n))"

definition lists_items :: "response \<Rightarrow> json_value list \<Rightarrow> bool" where
  "lists_items resp items =
     ((status resp = 200 \<or> status resp = 201) \<and>
      (\<exists>body. resp_json resp = Inr body \<and> py_getitem body ''Items'' = Inr (JList items)) \<and>
      list_all (\<lambda>item. \<exists>n. named item n) items)"

text \<open>A candidate matches a queried name exactly, or after lowercasing and trimming.\<close>

definition matches_exactly :: "string \<Rightarrow> json_value \<Rightarrow> bool" where
  "matches_exactly name item = named item name"

definition matches_insensitively :: "string \<Rightarrow> json_value \<Rightarrow> bool" where
  "matches_insensitively name item =
     (\<exists>n. named item n \<and> py_strip (py_lower n) = py_strip (py_lower name))"

section \<open>Collaborators for the examples\<close>

text \<open>Stand-ins for the functions that are parameters, used where an example needs
  concrete ones: a reader of the one-digit tokens, an all-or-nothing similarity, and a
  transport that answers from a table and counts its calls.\<close>

definition example_deps :: log_deps where
  "example_deps =
     \<lparr>string_to_int = (\<lambda>s. if s = ''0'' then Some 0 else if s = ''1'' then Some 1 else None),
      normalize_log_step_name = (\<lambda>s. s),
      ratio = (\<lambda>a b. if a = b then 100 else 0)\<rparr>"

definition example_log :: log_item where
  "example_log =
     LogItem ''Task'' ''Success'' [LogElement ''Info'' ''started'']
       [LogItem ''Step 1 Deploy'' ''Success'' [LogElement ''Info'' ''deploying'']
          [LogItem ''Action A'' ''Success'' [LogElement ''Info'' ''copied''] []],
        LogItem ''Step 2 Notify'' ''Success'' [LogElement ''Info'' ''notifying'']
          [LogItem ''Action B'' ''Success'' [LogElement ''Info'' ''mailed''] []]]"

definition example_env :: "(request \<Rightarrow> nat \<Rightarrow> (exn + response)) \<Rightarrow> nat env" where
  "example_env answer =
     \<lparr>http_request = (\<lambda>req n. (answer req n, Suc n)),
      build_url = (\<lambda>base p q. base @ ''/'' @ p @
         (case q of None \<Rightarrow> [] | Some kvs \<Rightarrow> ''?'' @ concat (map fst kvs))),
      quote_safe = (\<lambda>x. x),
      string_not_empty = (\<lambda>x. x \<noteq> []),
      TAKE_ALL = 10000,
      get_item_fuzzy = get_item_fuzzy_spec\<rparr>"

definition example_state :: "nat state" where
  "example_state = \<lparr>world = 0, requests = [], environment_cache = [], tenant_cache = []\<rparr>"

definition ok_response :: "json_value \<Rightarrow> response" where
  "ok_response body = \<lparr>status = 200, data = ''{}'', json = Some body\<rparr>"


text \<open>A transport table that answers every request with status 200 and the same body.\<close>

definition always_answers :: "json_value \<Rightarrow> request \<Rightarrow> nat \<Rightarrow> exn + response" where
  "always_answers body req n = Inr (ok_response body)"

text \<open>Two listings: one environment named \<open>Production\<close>; two spaces both named
  \<open>Default\<close>.\<close>

definition example_listing :: json_value where
  "example_listing =
     JDict [(''Items'',
       JList [JDict [(''Id'', JString ''Environments-1''), (''Name'', JString ''Production'')]])]"

definition duplicate_listing :: json_value where
  "duplicate_listing =
     JDict [(''Items'',
       JList [JDict [(''Id'', JString ''Spaces-1''), (''Name'', JString ''Default'')],
              JDict [(''Id'', JString ''Spaces-2''), (''Name'', JString ''Default'')]])]"


section \<open>The log tree filter\<close>

lemma get_logs_deep:
  "2 \<le> depth \<Longrightarrow>
   get_logs d item depth steps categories include_name =
     subtree_lines item categories include_name"
proof (induction item arbitrary: depth)
  case (LogItem name st els cs)
  have "concat (map (\<lambda>child. get_logs d child (depth + 1) steps categories include_name) cs)
      = concat (map (\<lambda>child. subtree_lines child categories include_name) cs)"
    using LogItem by (intro arg_cong[where f=concat] map_cong) auto
  with LogItem.prems show ?case
    by (auto simp: emitted_lines_def Let_def)
qed

lemma get_logs_depth_one:
  "get_logs d item 1 steps categories include_name =
     (if filter_logs d item steps then subtree_lines item categories include_name
      else emitted_lines item categories include_name)"
proof (cases item)
  case (LogItem name st els cs)
  have "\<And>child. get_logs d child (Suc (Suc 0)) steps categories include_name
      = subtree_lines child categories include_name"
    by (rule get_logs_deep) simp
  then show ?thesis using LogItem
    by (auto simp: emitted_lines_def Let_def)
qed

lemma get_logs_root:
  assumes "LogElements root \<noteq> [] \<or> Children root \<noteq> []"
  shows "get_logs d root 0 steps categories include_name =
     emitted_lines root categories include_name
     @ concat (map (\<lambda>child. if filter_logs d child steps
                              then subtree_lines child categories include_name
                              else emitted_lines child categories include_name)
                (Children root))"
proof (cases root)
  case (LogItem name st els cs)
  have "\<And>child. get_logs d child (Suc 0) steps categories include_name =
     (if filter_logs d child steps then subtree_lines child categories include_name
      else emitted_lines child categories include_name)"
    using get_logs_depth_one by simp
  with assms show ?thesis using LogItem
    by (auto simp: emitted_lines_def Let_def)
qed

text \<open>
  Claim C1. Under the task root, a depth-1 node that does not satisfy the step filter
  contributes exactly the lines it emits itself (its name when \<open>include_name\<close> is set,
  then its category-filtered messages) and nothing of its descendants; a depth-1 node that
  satisfies the filter contributes its whole subtree; and a node at depth 2 or more is
  rendered with its whole subtree whatever the step filter says. The last conjunct puts
  the two together for a root that has lines or children.
\<close>

theorem step_filter_prunes_only_at_depth_one:
  "(\<not> filter_logs d item steps \<longrightarrow>
      get_logs d item 1 steps categories include_name =
        emitted_lines item categories include_name) \<and>
   (filter_logs d item steps \<longrightarrow>
      get_logs d item 1 steps categories include_name =
        subtree_lines item categories include_name) \<and>
   (\<forall>depth\<ge>2. get_logs d item depth steps categories include_name =
        subtree_lines item categories include_name) \<and>
   (LogElements root \<noteq> [] \<or> Children root \<noteq> [] \<longrightarrow>
      get_logs d root 0 steps categories include_name =
        emitted_lines root categories include_name
        @ concat (map (\<lambda>child. if filter_logs d child steps
                                 then subtree_lines child categories include_name
                                 else emitted_lines child categories include_name)
                   (Children root)))"
  using get_logs_depth_one[of d item steps categories include_name]
    get_logs_deep[of _ d item steps categories include_name]
    get_logs_root[of root d steps categories include_name]
  by auto

theorem step_filter_prunes_only_at_depth_one_witness:
  "\<not> filter_logs example_deps (Children example_log ! 1) (Some [''1'']) \<and>
   filter_logs example_deps (Children example_log ! 0) (Some [''1'']) \<and>
   get_logs example_deps (Children example_log ! 1) 1 (Some [''1'']) None True =
     [''Step 2 Notify'', ''notifying''] \<and>
   get_logs example_deps (Children example_log ! 0) 1 (Some [''1'']) None True =
     [''Step 1 Deploy'', ''deploying'', ''Action A'', ''copied''] \<and>
   get_logs example_deps (Children example_log ! 1) 2 (Some [''1'']) None True =
     [''Step 2 Notify'', ''notifying'', ''Action B'', ''mailed''] \<and>
   get_logs example_deps example_log 0 (Some [''1'']) None True =
     [''Task'', ''started'', ''Step 1 Deploy'', ''deploying'', ''Action A'', ''copied'',
      ''Step 2 Notify'', ''notifying'']"
proof -
  have no: "\<not> filter_logs example_deps (Children example_log ! 1) (Some [''1''])"
    by (simp add: example_log_def example_deps_def filter_logs_def truthy_list_def
        truthy_int_def any_filter_def step_name_match_ratio_def)
  have yes: "filter_logs example_deps (Children example_log ! 0) (Some [''1''])"
    by (simp add: example_log_def example_deps_def filter_logs_def truthy_list_def
        truthy_int_def any_filter_def step_name_match_ratio_def)
  have root: "LogElements example_log \<noteq> [] \<or> Children example_log \<noteq> []"
    by (simp add: example_log_def)
  have two: "(2::nat) \<le> 2" by simp
  note c2 = step_filter_prunes_only_at_depth_one
    [of example_deps "Children example_log ! 1" "Some [''1'']" None True example_log]
  note c1 = step_filter_prunes_only_at_depth_one
    [of example_deps "Children example_log ! 0" "Some [''1'']" None True example_log]
  have a: "get_logs example_deps (Children example_log ! 1) 1 (Some [''1'']) None True =
      emitted_lines (Children example_log ! 1) None True"
    using c2 no by blast
  have b: "get_logs example_deps (Children example_log ! 0) 1 (Some [''1'']) None True =
      subtree_lines (Children example_log ! 0) None True"
    using c1 yes by blast
  have c: "get_logs example_deps (Children example_log ! 1) 2 (Some [''1'']) None True =
      subtree_lines (Children example_log ! 1) None True"
    using c2 two by blast
  have e: "get_logs example_deps example_log 0 (Some [''1'']) None True =
        emitted_lines example_log None True
        @ concat (map (\<lambda>child. if filter_logs example_deps child (Some [''1''])
                                 then subtree_lines child None True
                                 else emitted_lines child None True)
                   (Children example_log))"
    using c1 root by blast
  have a': "emitted_lines (Children example_log ! 1) None True = [''Step 2 Notify'', ''notifying'']"
    by (simp add: example_log_def emitted_lines_def truthy_list_def)
  have b': "subtree_lines (Children example_log ! 0) None True =
      [''Step 1 Deploy'', ''deploying'', ''Action A'', ''copied'']"
    by (simp add: example_log_def emitted_lines_def truthy_list_def)
  have c': "subtree_lines (Children example_log ! 1) None True =
      [''Step 2 Notify'', ''notifying'', ''Action B'', ''mailed'']"
    by (simp add: example_log_def emitted_lines_def truthy_list_def)
  have e': "emitted_lines example_log None True
        @ concat (map (\<lambda>child. if filter_logs example_deps child (Some [''1''])
                                 then subtree_lines child None True
                                 else emitted_lines child None True)
                   (Children example_log)) =
     [''Task'', ''started'', ''Step 1 Deploy'', ''deploying'', ''Action A'', ''copied'',
      ''Step 2 Notify'', ''notifying'']"
    by (simp add: example_log_def example_deps_def filter_logs_def truthy_list_def
        truthy_int_def any_filter_def step_name_match_ratio_def emitted_lines_def)
  show ?thesis
    using no yes a b c e a' b' c' e' by simp
qed

text \<open>What \<open>filter_logs\<close> computes, for every filter and every collaborator.\<close>

lemma filter_logs_iff:
  "filter_logs d item steps =
     (\<not> truthy_list steps \<or>
      (\<exists>tok \<in> set (the steps). tok \<noteq> [] \<and> truthy_int (string_to_int d tok) \<and>
          prefix (''Step '' @ tok) (Name item)) \<or>
      (\<exists>tok \<in> set (the steps). tok \<noteq> [] \<and>
          ratio d (normalize_log_step_name d tok) (normalize_log_step_name d (Name item))
            \<ge> 80))"
  by (auto simp: filter_logs_def Let_def any_filter_def list_ex_iff
      step_name_match_ratio_def truthy_list_def filter_empty_conv split: option.splits)

text \<open>
  Claim C3. The claim says that with a non-empty filter the predicate holds exactly if
  some token parses as an integer \<open>n\<close> and the name starts with \<open>"Step "\<close> followed by
  \<open>n\<close>, or some token is similar enough to the name. The code keeps as integer tokens
  those for which \<open>string_to_int\<close> is truthy, so a token that parses as 0 is dropped: for
  the one-token filter \<open>[tok]\<close> with \<open>string_to_int tok = 0\<close> and a name that starts
  with \<open>"Step " + tok\<close>, the predicate is false unless the similarity reaches 80.
\<close>

theorem filter_logs_drops_token_zero:
  assumes "string_to_int d tok = Some 0"
    and "prefix (''Step '' @ tok) (Name item)"
    and "ratio d (normalize_log_step_name d tok) (normalize_log_step_name d (Name item)) < 80"
  shows "\<not> filter_logs d item (Some [tok])"
  using assms by (simp add: filter_logs_iff truthy_list_def truthy_int_def)

theorem filter_logs_drops_token_zero_witness:
  "string_to_int example_deps ''0'' = Some 0 \<and>
   prefix (''Step '' @ ''0'') (Name (LogItem ''Step 0 Deploy'' ''Success'' [] [])) \<and>
   \<not> filter_logs example_deps (LogItem ''Step 0 Deploy'' ''Success'' [] []) (Some [''0''])"
proof -
  have h1: "string_to_int example_deps ''0'' = Some 0"
    by (simp add: example_deps_def)
  have h2: "prefix (''Step '' @ ''0'') (Name (LogItem ''Step 0 Deploy'' ''Success'' [] []))"
    by simp
  have h3: "ratio example_deps (normalize_log_step_name example_deps ''0'')
      (normalize_log_step_name example_deps (Name (LogItem ''Step 0 Deploy'' ''Success'' [] [])))
      < 80"
    by (simp add: example_deps_def)
  from filter_logs_drops_token_zero[OF h1 h2 h3] h1 h2 show ?thesis by blast
qed

text \<open>
  Claim C8. A root with no log elements and no children renders, when no category filter
  is given (\<open>None\<close> or the empty list), to the one line
  \<open>No logs found (status: <Status>).\<close> made from its status, for status \<open>Failed\<close> the
  line \<open>No logs found (status: Failed).\<close>; with a non-empty category filter it renders
  to no line at all.
\<close>

theorem empty_root_reports_status:
  "get_logs d (LogItem name st [] []) 0 steps None include_name =
     [''No logs found (status: '' @ st @ '').''] \<and>
   get_logs d (LogItem name st [] []) 0 steps (Some []) include_name =
     [''No logs found (status: '' @ st @ '').''] \<and>
   get_logs d (LogItem name ''Failed'' [] []) 0 steps None include_name =
     [''No logs found (status: Failed).''] \<and>
   get_logs d (LogItem name st [] []) 0 steps (Some (c # cs)) include_name = []"
  by (simp add: truthy_list_def)

text \<open>
  Claim C10. Rendering activity logs that are \<open>None\<close> or the empty list gives the empty
  string, for every step filter, category filter, join string and \<open>include_name\<close>, and
  whatever \<open>flatten_list\<close> does: the empty string, so not the line
  \<open>No logs found (status: ...).\<close>, which only \<open>get_logs\<close> on a root item makes, and
  not an error.
\<close>

theorem no_activity_logs_render_empty:
  "activity_logs_to_string d flatten_list None steps categories join_string include_name = []
   \<and> activity_logs_to_string d flatten_list (Some []) steps categories join_string
        include_name = []"
  by (simp add: activity_logs_to_string_def truthy_list_def)

section \<open>The response handler\<close>

text \<open>What \<open>handle_response\<close> does with a response the callback returned.\<close>

lemma handle_response_classifies:
  "handle_response (lift_io (Inr r)) s =
     ((if status r = 401 then
         (case decode_utf8 (data r) of Inl e \<Rightarrow> Inl e | Inr body \<Rightarrow> Inl OctopusApiKeyInvalid)
       else if status r \<noteq> 200 \<and> status r \<noteq> 201 then
         (case decode_utf8 (data r) of
            Inl e \<Rightarrow> Inl e
          | Inr body \<Rightarrow> Inl (OctopusRequestFailed (''Request failed with '' @ body)))
       else Inr r), s)"
  by (simp add: handle_response_def bind_io_def lift_io_def bind_e_def split: sum.splits)

text \<open>
  Claim C9. The claim says a response with status 401 is raised as the API-key-invalid
  error whatever its body is. The handler logs the decoded body before it raises, so for
  a 401 response whose body is the single byte 0xFF, which is not UTF-8, it raises
  \<open>UnicodeDecodeError\<close> and not \<open>OctopusApiKeyInvalid\<close>; a body that decodes gives the
  error the claim names; and the same byte under status 500 raises
  \<open>UnicodeDecodeError\<close> where the claim expects the request failure.
\<close>

theorem handle_response_undecodable_body:
  "handle_response (lift_io (Inr \<lparr>status = 401, data = [CHR 0xFF], json = None\<rparr>)) s
     = (Inl UnicodeDecodeError, s) \<and>
   handle_response (lift_io (Inr \<lparr>status = 401, data = ''Unauthorized'', json = None\<rparr>)) s
     = (Inl OctopusApiKeyInvalid, s) \<and>
   handle_response (lift_io (Inr \<lparr>status = 500, data = [CHR 0xFF], json = None\<rparr>)) s
     = (Inl UnicodeDecodeError, s)"
  by (simp add: handle_response_classifies decode_utf8_def)

section \<open>The paginator\<close>

lemma state_before_shift:
  "state_before (\<lambda>sk. gb (skip + sk)) tk s (Suc i) =
   state_before (\<lambda>sk. gb (skip + tk + sk)) tk (snd (gb skip tk s)) i"
proof (induction i)
  case 0
  show ?case by simp
next
  case (Suc i)
  then show ?case by (simp add: add.assoc)
qed

lemma page_shift:
  "page (\<lambda>sk. gb (skip + sk)) tk s (Suc i) =
   page (\<lambda>sk. gb (skip + tk + sk)) tk (snd (gb skip tk s)) i"
  unfolding page_def state_before_shift by (simp add: add.assoc)

lemma page_0: "page (\<lambda>sk. gb (skip + sk)) tk s 0 = fst (gb skip tk s)"
  by (simp add: page_def)

text \<open>The loop started at any \<open>skip\<close>: if the first \<open>k\<close> pages are full lists and page
  \<open>k\<close> is a list of another length, the loop ends after page \<open>k\<close>.\<close>

lemma generator_loop_pages:
  assumes "\<forall>i<k. \<exists>b. page (\<lambda>sk. gb (skip + sk)) tk s i = Inr (JList b) \<and> length b = tk"
    and "page (\<lambda>sk. gb (skip + sk)) tk s k = Inr (JList bk)"
    and "length bk \<noteq> tk"
  shows "generator_loop gb skip tk s =
     Some \<lparr>yielded = concat (map (\<lambda>i. page_items (page (\<lambda>sk. gb (skip + sk)) tk s i))
                         [0..<Suc k]),
           page_requests = map (\<lambda>i. (skip + i * tk, tk)) [0..<Suc k],
           raised = None,
           final = state_before (\<lambda>sk. gb (skip + sk)) tk s (Suc k)\<rparr>"
  using assms
proof (induction k arbitrary: skip s)
  case 0
  from 0(2) obtain s1 where g: "gb skip tk s = (Inr (JList bk), s1)"
    by (cases "gb skip tk s") (simp add: page_0)
  show ?case
    using g 0(3) by (subst generator_loop.simps) (simp add: page_def page_items_def)
next
  case (Suc k)
  from Suc.prems(1) obtain b
    where b: "page (\<lambda>sk. gb (skip + sk)) tk s 0 = Inr (JList b)" "length b = tk"
    by auto
  then obtain s1 where g: "gb skip tk s = (Inr (JList b), s1)"
    by (cases "gb skip tk s") (simp add: page_0)
  have s1: "s1 = snd (gb skip tk s)" using g by simp
  have ih: "generator_loop gb (skip + tk) tk s1 =
     Some \<lparr>yielded = concat (map (\<lambda>i. page_items (page (\<lambda>sk. gb (skip + tk + sk)) tk s1 i))
                         [0..<Suc k]),
           page_requests = map (\<lambda>i. (skip + tk + i * tk, tk)) [0..<Suc k],
           raised = None,
           final = state_before (\<lambda>sk. gb (skip + tk + sk)) tk s1 (Suc k)\<rparr>"
  proof (rule Suc.IH)
    show "\<forall>i<k. \<exists>b. page (\<lambda>sk. gb (skip + tk + sk)) tk s1 i = Inr (JList b) \<and> length b = tk"
      using Suc.prems(1) unfolding s1 page_shift[symmetric] by auto
    show "page (\<lambda>sk. gb (skip + tk + sk)) tk s1 k = Inr (JList bk)"
      using Suc.prems(2) unfolding s1 page_shift[symmetric] by simp
    show "length bk \<noteq> tk" by (rule Suc.prems(3))
  qed
  have pages: "map (\<lambda>i. page_items (page (\<lambda>sk. gb (skip + sk)) tk s i)) [0..<Suc (Suc k)]
     = b # map (\<lambda>i. page_items (page (\<lambda>sk. gb (skip + tk + sk)) tk s1 i)) [0..<Suc k]"
    unfolding s1 page_shift[symmetric]
    by (subst upt_conv_Cons, simp,
        simp only: list.map map_Suc_upt[symmetric] map_map comp_def b page_items_def, simp)
  have reqs: "map (\<lambda>i. (skip + i * tk, tk)) [0..<Suc (Suc k)]
     = (skip, tk) # map (\<lambda>i. (skip + tk + i * tk, tk)) [0..<Suc k]"
    by (subst upt_conv_Cons, simp,
        simp only: list.map map_Suc_upt[symmetric] map_map comp_def, simp add: add.assoc)
  have fin: "state_before (\<lambda>sk. gb (skip + sk)) tk s (Suc (Suc k)) =
     state_before (\<lambda>sk. gb (skip + tk + sk)) tk s1 (Suc k)"
    unfolding s1 by (rule state_before_shift)
  show ?case
    apply (subst generator_loop.simps)
    apply (simp only: g ih pages reqs fin)
    apply (simp add: b ih del: upt_Suc state_before.simps)
    done
qed

lemma length_full_pages:
  assumes "\<forall>i<k. \<exists>b. f i = Inr (JList b) \<and> length b = n"
  shows "length (concat (map (\<lambda>i. page_items (f i)) [0..<k])) = k * n"
  using assms
proof (induction k)
  case 0
  show ?case by simp
next
  case (Suc k)
  from Suc.prems obtain b where "f k = Inr (JList b)" "length b = n" by auto
  moreover have "length (concat (map (\<lambda>i. page_items (f i)) [0..<k])) = k * n"
    using Suc by simp
  ultimately show ?case by (simp add: page_items_def)
qed

text \<open>
  Claim C2. For every batch function and every state it starts in: the generator asks for
  page 0 at \<open>skip = 0\<close> with \<open>take = 30\<close> and for each further page at a \<open>skip\<close> that is
  30 more, each request made in the state the one before left. If the first \<open>k\<close> pages
  are lists of 30 items and page \<open>k\<close> is a list of another length, the generator ends
  after page \<open>k\<close> without an exception: it has yielded the pages \<open>0..k\<close> concatenated in
  request order, \<open>30 * k\<close> items and those of the last page, and it has made exactly the
  \<open>k + 1\<close> requests \<open>(0, 30), (30, 30), ..., (30 * k, 30)\<close>. \<open>get_spaces_generator\<close> and
  \<open>get_projects_generator\<close> are this generator over their batch functions.
\<close>

theorem batch_generator_stops_after_first_short_page:
  assumes "\<forall>i<k. \<exists>b. page get_batch 30 s i = Inr (JList b) \<and> length b = 30"
    and "page get_batch 30 s k = Inr (JList bk)"
    and "length bk \<noteq> 30"
  shows "batch_generator get_batch s =
     Some \<lparr>yielded = concat (map (\<lambda>i. page_items (page get_batch 30 s i)) [0..<Suc k]),
           page_requests = map (\<lambda>i. (i * 30, 30)) [0..<Suc k],
           raised = None,
           final = state_before get_batch 30 s (Suc k)\<rparr>
     \<and> length (concat (map (\<lambda>i. page_items (page get_batch 30 s i)) [0..<Suc k]))
         = 30 * k + length bk
     \<and> length (map (\<lambda>i. (i * 30, 30 :: nat)) [0..<Suc k]) = Suc k"
proof -
  have "batch_generator get_batch s =
     Some \<lparr>yielded = concat (map (\<lambda>i. page_items (page get_batch 30 s i)) [0..<Suc k]),
           page_requests = map (\<lambda>i. (i * 30, 30)) [0..<Suc k],
           raised = None,
           final = state_before get_batch 30 s (Suc k)\<rparr>"
    using generator_loop_pages[of k get_batch 0 30 s bk] assms
    by (simp add: batch_generator_def del: upt_Suc state_before.simps)
  moreover have "length (concat (map (\<lambda>i. page_items (page get_batch 30 s i)) [0..<Suc k]))
         = 30 * k + length bk"
    using length_full_pages[of k "page get_batch 30 s" 30] assms(1,2)
    by (simp add: page_items_def)
  ultimately show ?thesis
    by (simp del: upt_Suc)
qed

text \<open>The two runs of the specification: batches of sizes 30, 30, 17 give 77 items in 3
  requests; batches of sizes 30, 30, 30, 0 give 90 items in 4 requests.\<close>

theorem batch_generator_stops_after_first_short_page_witness:
  "batch_generator
     (fake_listing [replicate 30 JNull, replicate 30 JNull, replicate 17 JNull]) 0
   = Some \<lparr>yielded = replicate 77 JNull, page_requests = [(0, 30), (30, 30), (60, 30)],
           raised = None, final = 3\<rparr> \<and>
   batch_generator
     (fake_listing [replicate 30 JNull, replicate 30 JNull, replicate 30 JNull, []]) 0
   = Some \<lparr>yielded = replicate 90 JNull,
           page_requests = [(0, 30), (30, 30), (60, 30), (90, 30)],
           raised = None, final = 4\<rparr>"
proof -
  let ?gb = "fake_listing [replicate 30 JNull, replicate 30 JNull, replicate 17 JNull]"
  have p0: "page ?gb 30 0 0 = Inr (JList (replicate 30 JNull))"
    by (simp add: page_def fake_listing_def)
  have p1: "page ?gb 30 0 1 = Inr (JList (replicate 30 JNull))"
    by (simp add: page_def fake_listing_def)
  have p2: "page ?gb 30 0 2 = Inr (JList (replicate 17 JNull))"
    by (simp add: page_def fake_listing_def numeral_2_eq_2)
  have h1: "\<forall>i<2. \<exists>b. page ?gb 30 0 i = Inr (JList b) \<and> length b = 30"
    using p0 p1 by (simp add: numeral_2_eq_2 less_Suc_eq)
  have h3: "length (replicate 17 JNull) \<noteq> 30" by simp
  have u2: "[0..<Suc 2] = [0, 1, 2]" by (simp add: numeral_2_eq_2)
  have first: "batch_generator ?gb 0
     = Some \<lparr>yielded = replicate 77 JNull, page_requests = [(0, 30), (30, 30), (60, 30)],
             raised = None, final = 3\<rparr>"
    using batch_generator_stops_after_first_short_page[OF h1 p2 h3] p0 p1 p2 u2
    by (simp add: page_items_def fake_listing_def numeral_2_eq_2 numeral_3_eq_3
        replicate_add[symmetric] del: upt_Suc replicate.simps)
  let ?gc = "fake_listing [replicate 30 JNull, replicate 30 JNull, replicate 30 JNull, []]"
  have q0: "page ?gc 30 0 0 = Inr (JList (replicate 30 JNull))"
    by (simp add: page_def fake_listing_def)
  have q1: "page ?gc 30 0 1 = Inr (JList (replicate 30 JNull))"
    by (simp add: page_def fake_listing_def)
  have q2: "page ?gc 30 0 2 = Inr (JList (replicate 30 JNull))"
    by (simp add: page_def fake_listing_def numeral_2_eq_2)
  have q3: "page ?gc 30 0 3 = Inr (JList [])"
    by (simp add: page_def fake_listing_def numeral_3_eq_3)
  have k1: "\<forall>i<3. \<exists>b. page ?gc 30 0 i = Inr (JList b) \<and> length b = 30"
    using q0 q1 q2 by (simp add: numeral_3_eq_3 numeral_2_eq_2 less_Suc_eq)
  have k3: "length ([] :: json_value list) \<noteq> 30" by simp
  have u3: "[0..<Suc 3] = [0, 1, 2, 3]" by (simp add: numeral_3_eq_3 numeral_2_eq_2)
  have second: "batch_generator ?gc 0
     = Some \<lparr>yielded = replicate 90 JNull,
             page_requests = [(0, 30), (30, 30), (60, 30), (90, 30)],
             raised = None, final = 4\<rparr>"
    using batch_generator_stops_after_first_short_page[OF k1 q3 k3] q0 q1 q2 q3 u3
    by (simp add: page_items_def fake_listing_def numeral_2_eq_2 numeral_3_eq_3
        replicate_add[symmetric] eval_nat_numeral(2)[of "num.Bit0 num.One"]
        del: upt_Suc replicate.simps)
  from first second show ?thesis by simp
qed

section \<open>Requests, retries and the direct lookups by id\<close>

lemma bind_io_lift_Inr [simp]: "bind_io (lift_io (Inr a)) f = f a"
  by (rule ext) (simp add: bind_io_def lift_io_def)

lemma bind_io_lift_Inl [simp]: "bind_io (lift_io (Inl e)) f = lift_io (Inl e)"
  by (rule ext) (simp add: bind_io_def lift_io_def)

lemma ensure_ok [simp]:
  "string_not_empty env x \<Longrightarrow> ensure_string_not_empty env (Some x) msg = Inr ()"
  by (simp add: ensure_string_not_empty_def)

lemma http_get_Some:
  "http_get env api (Some k) s =
     (fst (http_request env (get_request api k) (world s)),
      s\<lparr>world := snd (http_request env (get_request api k) (world s)),
        requests := requests s @ [get_request api k]\<rparr>)"
  by (simp add: http_get_def get_octopus_headers_def get_request_def Let_def split: prod.splits)


lemma retry_3: "retry 3 f s =
  (case f s of (Inl (HTTPError m), s') \<Rightarrow>
     (case f s' of (Inl (HTTPError m), s'') \<Rightarrow> f s'' | r \<Rightarrow> r) | r \<Rightarrow> r)"
  by (simp add: numeral_3_eq_3 split: prod.splits sum.splits exn.splits)

lemma retry_3_no_HTTPError:
  "\<forall>m. fst (f s) \<noteq> Inl (HTTPError m) \<Longrightarrow> retry 3 f s = f s"
  by (auto simp: retry_3 split: prod.splits sum.splits exn.splits)
















section \<open>Lookups by name\<close>

lemma filter_e_named:
  assumes "list_all (\<lambda>item. \<exists>n. named item n) items"
  shows "filter_e (name_equals name) items = Inr (filter (matches_exactly name) items)"
    and "filter_e (name_equals_ci name) items = Inr (filter (matches_insensitively name) items)"
  using assms
proof (induction items)
  case Nil
  { case 1 show ?case by simp }
  { case 2 show ?case by simp }
next
  case (Cons item items)
  { case 1
    then show ?case using Cons.IH(1)
      by (auto simp: name_equals_def matches_exactly_def named_def bind_e_def) }
  { case 2
    then show ?case using Cons.IH(2)
      by (auto simp: name_equals_ci_def matches_insensitively_def named_def bind_e_def) }
qed

lemma exact_match_is_insensitive:
  "matches_exactly name item \<Longrightarrow> matches_insensitively name item"
  by (auto simp: matches_exactly_def matches_insensitively_def)

lemma length_filter_mono:
  "(\<And>x. P x \<Longrightarrow> Q x) \<Longrightarrow> length (filter P xs) \<le> length (filter Q xs)"
  by (induction xs) auto

lemma handle_response_answered:
  assumes "http_request env (get_request api k) (world s) = (Inr resp, w)"
    and "status resp = 200 \<or> status resp = 201"
  shows "handle_response (http_get env api (Some k)) s =
     (Inr resp, s\<lparr>world := w, requests := requests s @ [get_request api k]\<rparr>)"
  using assms
  by (auto simp: handle_response_def bind_io_def http_get_Some lift_io_def)

lemma lookup_fuzzy_answered:
  assumes "http_request env (get_request api k) (world s) = (Inr resp, w)"
    and "lists_items resp items"
  shows "lookup_fuzzy env api (Some k) name s =
     (get_item_fuzzy env (JList items) name,
      s\<lparr>world := w, requests := requests s @ [get_request api k]\<rparr>)"
proof -
  from assms(2) obtain body
    where ok: "status resp = 200 \<or> status resp = 201"
      and body: "resp_json resp = Inr body" "py_getitem body ''Items'' = Inr (JList items)"
    by (auto simp: lists_items_def)
  show ?thesis
    unfolding lookup_fuzzy_def
    using handle_response_answered[OF assms(1) ok] body
    by (simp add: bind_io_def lift_io_def bind_e_def)
qed

text \<open>The body the three lookups by name share, when both listings answer and
  \<open>get_item_fuzzy\<close> selects nothing from either.\<close>

lemma two_tiers_select_nothing:
  assumes "http_request env (get_request api1 k) (world s) = (Inr resp1, w1)"
    and "lists_items resp1 items1"
    and "get_item_fuzzy env (JList items1) name = Inr JNull"
    and "http_request env (get_request api2 k) w1 = (Inr resp2, w2)"
    and "lists_items resp2 items2"
    and "get_item_fuzzy env (JList items2) name = Inr JNull"
  shows "retry 3
     (bind_io (lookup_fuzzy env api1 (Some k) name) (\<lambda>x.
        if x = JNull then
          bind_io (lookup_fuzzy env api2 (Some k) name) (\<lambda>y.
            if y = JNull then lift_io (Inl (ResourceNotFound kind name))
            else lift_io (Inr y))
        else lift_io (Inr x))) s
   = (Inl (ResourceNotFound kind name),
      s\<lparr>world := w2, requests := requests s @ [get_request api1 k, get_request api2 k]\<rparr>)"
proof -
  let ?s1 = "s\<lparr>world := w1, requests := requests s @ [get_request api1 k]\<rparr>"
  have l1: "lookup_fuzzy env api1 (Some k) name s = (Inr JNull, ?s1)"
    using lookup_fuzzy_answered[OF assms(1,2)] assms(3) by simp
  have "http_request env (get_request api2 k) (world ?s1) = (Inr resp2, w2)"
    using assms(4) by simp
  from lookup_fuzzy_answered[OF this assms(5)] assms(6)
  have l2: "lookup_fuzzy env api2 (Some k) name ?s1
     = (Inr JNull, s\<lparr>world := w2, requests := requests s @ [get_request api1 k, get_request api2 k]\<rparr>)"
    by simp
  show ?thesis
    by (subst retry_3_no_HTTPError) (simp_all add: bind_io_def l1 l2 lift_io_def)
qed

text \<open>The selection of the specification selects nothing when no candidate matches, and
  nothing when more than one candidate has the queried name.\<close>

lemma get_item_fuzzy_spec_no_match:
  assumes "list_all (\<lambda>item. \<exists>n. named item n) items"
    and "\<forall>item\<in>set items. \<not> matches_exactly name item \<and> \<not> matches_insensitively name item"
  shows "get_item_fuzzy_spec (JList items) name = Inr JNull"
proof -
  have "filter (matches_exactly name) items = []"
    and "filter (matches_insensitively name) items = []"
    using assms(2) by (auto simp: filter_empty_conv)
  then show ?thesis
    by (simp add: get_item_fuzzy_spec_def bind_e_def filter_e_named[OF assms(1)])
qed

lemma get_item_fuzzy_spec_duplicates:
  assumes "list_all (\<lambda>item. \<exists>n. named item n) items"
    and "1 < length (filter (matches_exactly name) items)"
  shows "get_item_fuzzy_spec (JList items) name = Inr JNull"
proof -
  have "length (filter (matches_exactly name) items)
      \<le> length (filter (matches_insensitively name) items)"
    by (rule length_filter_mono) (rule exact_match_is_insensitive)
  with assms(2) show ?thesis
    by (simp add: get_item_fuzzy_spec_def bind_e_def filter_e_named[OF assms(1)])
qed

text \<open>
  Claim C6. With \<open>get_item_fuzzy\<close> as the specification describes it: when the listing
  with the partial name and the full listing both answer, and no candidate of either has
  a name equal to the queried name, exactly or after lowercasing and trimming, the lookup
  (\<open>get_environment_fuzzy\<close>, \<open>get_project_fuzzy\<close>, and \<open>get_tenant_fuzzy\<close> alike) raises
  \<open>ResourceNotFound\<close> with the kind of resource and the queried name as it was given, and
  returns no resource; it has made the two listing requests and no other.
\<close>

theorem unmatched_name_raises_resource_not_found:
  assumes "get_item_fuzzy env = get_item_fuzzy_spec"
    and "(resolve, collection, kind) = (get_environment_fuzzy, ''Environments'', ''Environment'')
       \<or> (resolve, collection, kind) = (get_project_fuzzy, ''Projects'', ''Project'')
       \<or> (resolve, collection, kind) = (get_tenant_fuzzy, ''Tenants'', ''Tenant'')"
    and "http_request env (partial_name_request env octopus_url k space_id collection name)
           (world s) = (Inr resp1, w1)"
    and "lists_items resp1 items1"
    and "http_request env (full_list_request env octopus_url k space_id collection) w1
           = (Inr resp2, w2)"
    and "lists_items resp2 items2"
    and "\<forall>item\<in>set items1 \<union> set items2.
           \<not> matches_exactly name item \<and> \<not> matches_insensitively name item"
  shows "resolve env space_id name (Some k) octopus_url s
     = (Inl (ResourceNotFound kind name),
        s\<lparr>world := w2,
          requests := requests s @
            [partial_name_request env octopus_url k space_id collection name,
             full_list_request env octopus_url k space_id collection]\<rparr>)"
proof -
  have n1: "get_item_fuzzy env (JList items1) name = Inr JNull"
    unfolding assms(1) using assms(4,7)
    by (intro get_item_fuzzy_spec_no_match) (auto simp: lists_items_def)
  have n2: "get_item_fuzzy env (JList items2) name = Inr JNull"
    unfolding assms(1) using assms(6,7)
    by (intro get_item_fuzzy_spec_no_match) (auto simp: lists_items_def)
  note tiers = two_tiers_select_nothing
    [OF assms(3)[unfolded partial_name_request_def] assms(4) n1
        assms(5)[unfolded full_list_request_def] assms(6) n2]
  from assms(2) show ?thesis
  proof (elim disjE)
    assume "(resolve, collection, kind) = (get_environment_fuzzy, ''Environments'', ''Environment'')"
    then show ?thesis
      using tiers[of kind]
      unfolding get_environment_fuzzy_def Let_def partial_name_request_def full_list_request_def
      by (simp cong: if_cong)
  next
    assume "(resolve, collection, kind) = (get_project_fuzzy, ''Projects'', ''Project'')"
    then show ?thesis
      using tiers[of kind]
      unfolding get_project_fuzzy_def Let_def partial_name_request_def full_list_request_def
      by (simp cong: if_cong)
  next
    assume "(resolve, collection, kind) = (get_tenant_fuzzy, ''Tenants'', ''Tenant'')"
    then show ?thesis
      using tiers[of kind]
      unfolding get_tenant_fuzzy_def Let_def partial_name_request_def full_list_request_def
      by (simp cong: if_cong)
  qed
qed

theorem unmatched_name_raises_resource_not_found_witness:
  "get_environment_fuzzy (example_env (always_answers example_listing)) ''Spaces-1''
      ''Staging'' (Some ''API-1'') ''https://octopus'' example_state
   = (Inl (ResourceNotFound ''Environment'' ''Staging''),
      example_state\<lparr>world := 2,
        requests :=
          [\<lparr>http_method = ''GET'',
            url = ''https://octopus/api/Spaces-1/Environments?partialname'',
            headers = [(''X-Octopus-ApiKey'', ''API-1''), (''User-Agent'', ''OctopusAI'')]\<rparr>,
           \<lparr>http_method = ''GET'', url = ''https://octopus/api/Spaces-1/Environments'',
            headers = [(''X-Octopus-ApiKey'', ''API-1''), (''User-Agent'', ''OctopusAI'')]\<rparr>]\<rparr>)"
proof -
  let ?env = "example_env (always_answers example_listing)"
  let ?items = "[JDict [(''Id'', JString ''Environments-1''), (''Name'', JString ''Production'')]]"
  have sel: "get_item_fuzzy ?env = get_item_fuzzy_spec" by (simp add: example_env_def)
  have which: "(get_environment_fuzzy :: nat env \<Rightarrow> _, ''Environments'', ''Environment'')
        = (get_environment_fuzzy, ''Environments'', ''Environment'')
     \<or> (get_environment_fuzzy :: nat env \<Rightarrow> _, ''Environments'', ''Environment'')
        = (get_project_fuzzy, ''Projects'', ''Project'')
     \<or> (get_environment_fuzzy :: nat env \<Rightarrow> _, ''Environments'', ''Environment'')
        = (get_tenant_fuzzy, ''Tenants'', ''Tenant'')"
    by simp
  have t1: "http_request ?env
      (partial_name_request ?env ''https://octopus'' ''API-1'' ''Spaces-1'' ''Environments''
         ''Staging'') (world example_state) = (Inr (ok_response example_listing), 1)"
    by (simp add: example_env_def always_answers_def example_state_def)
  have t2: "http_request ?env
      (full_list_request ?env ''https://octopus'' ''API-1'' ''Spaces-1'' ''Environments'') 1
      = (Inr (ok_response example_listing), 2)"
    by (simp add: example_env_def always_answers_def)
  have li: "lists_items (ok_response example_listing) ?items"
    by (simp add: lists_items_def ok_response_def resp_json_def decode_utf8_def bind_e_def
        example_listing_def named_def)
  have nm: "\<forall>item\<in>set ?items \<union> set ?items.
      \<not> matches_exactly ''Staging'' item \<and> \<not> matches_insensitively ''Staging'' item"
    by (simp add: matches_exactly_def matches_insensitively_def named_def py_lower_def
        py_strip_def lower_char_def is_space_def)
  have r1: "partial_name_request ?env ''https://octopus'' ''API-1'' ''Spaces-1''
       ''Environments'' ''Staging''
     = \<lparr>http_method = ''GET'',
            url = ''https://octopus/api/Spaces-1/Environments?partialname'',
            headers = [(''X-Octopus-ApiKey'', ''API-1''), (''User-Agent'', ''OctopusAI'')]\<rparr>"
    by (simp add: partial_name_request_def get_request_def example_env_def)
  have r2: "full_list_request ?env ''https://octopus'' ''API-1'' ''Spaces-1'' ''Environments''
     = \<lparr>http_method = ''GET'', url = ''https://octopus/api/Spaces-1/Environments'',
            headers = [(''X-Octopus-ApiKey'', ''API-1''), (''User-Agent'', ''OctopusAI'')]\<rparr>"
    by (simp add: full_list_request_def get_request_def example_env_def)
  have s0: "requests example_state = []" by (simp add: example_state_def)
  show ?thesis
    using unmatched_name_raises_resource_not_found[OF sel which t1 li t2 li nm]
    unfolding r1 r2 s0 by simp
qed

section \<open>A duplicated space name\<close>

text \<open>
  Claim C7. When more than one space of the listing has a name equal to the queried name,
  neither pass of \<open>get_space_id_and_name_from_name\<close> selects a space: the exact pass
  finds more than one, and the case-insensitive pass, which finds at least those, more
  than one too; each pass needs exactly one match to return. So the lookup raises the
  not-found error, \<open>SpaceNotFound\<close> with the queried name, although spaces of that name
  exist. (The listing answered, and the arguments pass the validation.)
\<close>

theorem duplicated_space_name_is_not_found:
  assumes "string_not_empty env space_name" and "string_not_empty env octopus_url"
    and "string_not_empty env k" and "\<not> prefix ''Spaces-'' space_name"
    and "http_request env (spaces_list_request env octopus_url k) (world s) = (Inr resp, w)"
    and "lists_items resp items"
    and "1 < length (filter (matches_exactly space_name) items)"
  shows "get_space_id_and_name_from_name env space_name (Some k) octopus_url s
     = (Inl (SpaceNotFound space_name),
        s\<lparr>world := w, requests := requests s @ [spaces_list_request env octopus_url k]\<rparr>)
     \<and> length (filter (matches_exactly space_name) items) \<noteq> 1
     \<and> length (filter (matches_insensitively space_name) items) \<noteq> 1"
proof -
  from assms(6) obtain body
    where ok: "status resp = 200 \<or> status resp = 201"
      and body: "resp_json resp = Inr body" "py_getitem body ''Items'' = Inr (JList items)"
      and named: "list_all (\<lambda>item. \<exists>n. named item n) items"
    by (auto simp: lists_items_def)
  have "length (filter (matches_exactly space_name) items)
      \<le> length (filter (matches_insensitively space_name) items)"
    by (rule length_filter_mono) (rule exact_match_is_insensitive)
  with assms(7) have many: "length (filter (matches_exactly space_name) items) \<noteq> 1"
    "length (filter (matches_insensitively space_name) items) \<noteq> 1"
    by simp_all
  have "get_space_id_and_name_from_name env space_name (Some k) octopus_url s
     = (Inl (SpaceNotFound space_name),
        s\<lparr>world := w, requests := requests s @ [spaces_list_request env octopus_url k]\<rparr>)"
    using assms(1,2,3,4) many body
      handle_response_answered[OF assms(5)[unfolded spaces_list_request_def] ok]
    by (simp add: get_space_id_and_name_from_name_def Let_def bind_io_def lift_io_def
        bind_e_def filter_e_named[OF named] spaces_list_request_def)
  with many show ?thesis by simp
qed

theorem duplicated_space_name_is_not_found_witness:
  "get_space_id_and_name_from_name (example_env (always_answers duplicate_listing))
      ''Default'' (Some ''API-1'') ''https://octopus'' example_state
   = (Inl (SpaceNotFound ''Default''),
      example_state\<lparr>world := 1,
        requests :=
          [\<lparr>http_method = ''GET'', url = ''https://octopus/api/spaces?take'',
            headers = [(''X-Octopus-ApiKey'', ''API-1''), (''User-Agent'', ''OctopusAI'')]\<rparr>]\<rparr>)"
proof -
  let ?env = "example_env (always_answers duplicate_listing)"
  let ?items = "[JDict [(''Id'', JString ''Spaces-1''), (''Name'', JString ''Default'')],
                 JDict [(''Id'', JString ''Spaces-2''), (''Name'', JString ''Default'')]]"
  have h1: "string_not_empty ?env ''Default''" by (simp add: example_env_def)
  have h2: "string_not_empty ?env ''https://octopus''" by (simp add: example_env_def)
  have h3: "string_not_empty ?env ''API-1''" by (simp add: example_env_def)
  have h4: "\<not> prefix ''Spaces-'' ''Default''" by simp
  have t1: "http_request ?env (spaces_list_request ?env ''https://octopus'' ''API-1'')
      (world example_state) = (Inr (ok_response duplicate_listing), 1)"
    by (simp add: example_env_def always_answers_def example_state_def)
  have li: "lists_items (ok_response duplicate_listing) ?items"
    by (simp add: lists_items_def ok_response_def resp_json_def decode_utf8_def bind_e_def
        duplicate_listing_def named_def)
  have dup: "1 < length (filter (matches_exactly ''Default'') ?items)"
    by (simp add: matches_exactly_def named_def)
  have r1: "spaces_list_request ?env ''https://octopus'' ''API-1''
     = \<lparr>http_method = ''GET'', url = ''https://octopus/api/spaces?take'',
            headers = [(''X-Octopus-ApiKey'', ''API-1''), (''User-Agent'', ''OctopusAI'')]\<rparr>"
    by (simp add: spaces_list_request_def get_request_def example_env_def)
  have s0: "requests example_state = []" by (simp add: example_state_def)
  show ?thesis
    using duplicated_space_name_is_not_found[OF h1 h2 h3 h4 t1 li dup]
    unfolding r1 s0 by simp
qed

section \<open>The caches\<close>









lemma cached_value_prepare:
  "cached_value (cache_prepare c u sp) u sp n = cached_value c u sp n"
  by (auto simp: cached_value_def cache_prepare_def truthy_list_def Let_def update_conv'
      split: option.splits)











end
